theory Spec2Isabelle
  imports Main
begin

section \<open>Python values used by the models\<close>

text \<open>
  A Python \<open>str\<close> is a sequence of Unicode code points, so it is modelled as a list of
  natural numbers (\<open>py\<close> turns an ASCII literal into one). A UUID is a number.

  The datetimes of \<open>credential.py\<close> are the naive UTC values that \<open>datetime.utcnow()\<close>
  returns. The code only adds a \<open>timedelta\<close> to them, subtracts them and compares them,
  so a datetime is represented by its distance from \<open>datetime.min\<close> (0001-01-01 00:00:00)
  in microseconds, the resolution of the type, and a \<open>timedelta\<close> by its length in
  microseconds. \<open>datetime.max\<close> is 9999-12-31 23:59:59.999999; going outside the range
  raises \<open>OverflowError\<close>, as does a \<open>timedelta\<close> of more than 999999999 days.
  Every call of \<open>datetime.utcnow()\<close> is an explicit argument of the model: a method
  that reads the clock twice takes two readings.
\<close>

type_synonym pystr = "nat list"
type_synonym uuid = nat
type_synonym datetime = int
type_synonym timedelta = int

definition py :: "string \<Rightarrow> pystr" where
  "py s = map of_char s"

datatype py_error =
    OverflowError | AttributeError | UnicodeEncodeError | IntegrityError | ValueError pystr

text \<open>
  A method that mutates \<open>self\<close> either returns, or raises and leaves \<open>self\<close> as the
  statements before the raise made it. Both outcomes carry the object.
\<close>

datatype 'a outcome = Returned 'a | Raised py_error 'a

fun state_of :: "'a outcome \<Rightarrow> 'a" where
  "state_of (Returned s) = s"
| "state_of (Raised e s) = s"

fun is_returned :: "'a outcome \<Rightarrow> bool" where
  "is_returned (Returned s) = True"
| "is_returned (Raised e s) = False"

definition MAX_DATETIME :: datetime where
  "MAX_DATETIME = 315537897599999999"

definition US_PER_SECOND :: int where
  "US_PER_SECOND = 1000000"

definition US_PER_MINUTE :: int where
  "US_PER_MINUTE = 60000000"

definition US_PER_DAY :: int where
  "US_PER_DAY = 86400000000"

definition MAX_DELTA_DAYS :: int where
  "MAX_DELTA_DAYS = 999999999"

definition valid_datetime :: "datetime \<Rightarrow> bool" where
  "valid_datetime t \<longleftrightarrow> 0 \<le> t \<and> t \<le> MAX_DATETIME"

text \<open>\<open>timedelta(days=d)\<close> and \<open>timedelta(minutes=m)\<close> for integer arguments.\<close>

definition timedelta_of_us :: "int \<Rightarrow> py_error + timedelta" where
  "timedelta_of_us us =
     (if - MAX_DELTA_DAYS \<le> us div US_PER_DAY \<and> us div US_PER_DAY \<le> MAX_DELTA_DAYS
      then Inr us else Inl OverflowError)"

definition timedelta_days :: "int \<Rightarrow> py_error + timedelta" where
  "timedelta_days d = timedelta_of_us (d * US_PER_DAY)"

definition timedelta_minutes :: "int \<Rightarrow> py_error + timedelta" where
  "timedelta_minutes m = timedelta_of_us (m * US_PER_MINUTE)"

text \<open>\<open>datetime + timedelta\<close>.\<close>

definition datetime_add :: "datetime \<Rightarrow> timedelta \<Rightarrow> py_error + datetime" where
  "datetime_add t d =
     (if valid_datetime (t + d) then Inr (t + d) else Inl OverflowError)"

text \<open>
  \<open>int(delta.total_seconds())\<close>: \<open>total_seconds()\<close> divides the microseconds by
  \<open>10**6\<close> with Python's true division of integers, which gives the double nearest
  to the quotient (ties to the even mantissa), and \<open>int\<close> truncates that double
  toward zero. A double has a mantissa of 53 bits: for \<open>n\<close> microseconds,
  \<open>mantissa_shift\<close> finds the least \<open>s\<close> with \<open>2**52 \<le> n * 2**s / 10**6\<close>, the
  mantissa is that number rounded to an integer and the double is the mantissa
  divided by \<open>2**s\<close>. A timedelta has less than \<open>2**52 * 10**6\<close> microseconds (it is
  at most 999999999 days long), so that \<open>s\<close> is never negative, and at least one
  microsecond when it is not zero, so that \<open>s\<close> is at most 72. From \<open>2**34\<close>
  seconds on the result can be one second more than the whole seconds of the
  timedelta; below \<open>2**53\<close> microseconds it is exactly the whole seconds.
\<close>

definition round_half_even :: "nat \<Rightarrow> nat \<Rightarrow> nat" where
  "round_half_even x y =
     (let q = x div y; r = x mod y
      in if 2 * r < y then q
         else if y < 2 * r then q + 1
         else if even q then q else q + 1)"

fun mantissa_shift :: "nat \<Rightarrow> nat \<Rightarrow> nat \<Rightarrow> nat" where
  "mantissa_shift 0 n s = s"
| "mantissa_shift (Suc fuel) n s =
     (if 4503599627370496 * 1000000 \<le> n * 2 ^ s then s
      else mantissa_shift fuel n (Suc s))"

definition float_seconds :: "nat \<Rightarrow> nat" where
  "float_seconds n =
     (if n = 0 then 0
      else (let s = mantissa_shift 72 n 0;
                m = round_half_even (n * 2 ^ s) 1000000
            in m div 2 ^ s))"

definition total_seconds_int :: "timedelta \<Rightarrow> int" where
  "total_seconds_int d =
     (if 0 \<le> d then int (float_seconds (nat d)) else - int (float_seconds (nat (- d))))"

definition FLOAT_EXACT :: int where
  "FLOAT_EXACT = 9007199254740992"


section \<open>Base models (\<open>app/models/base.py\<close>)\<close>

record BaseModel =
  id' :: uuid
  is_deleted :: bool
  deleted_at :: "datetime option"
  metadata_json :: "pystr option"

record FullBaseModel = BaseModel +
  created_at :: datetime
  updated_at :: datetime
  created_by :: "pystr option"
  updated_by :: "pystr option"
  version :: int
  compliance_tags :: "pystr option"
  retention_date :: "datetime option"
  classification :: "pystr option"


section \<open>Credentials (\<open>app/models/credential.py\<close>)\<close>

datatype CredentialType = PASSWORD | CLIENT_SECRET | CERTIFICATE | API_KEY | TOKEN | SSH_KEY

datatype CredentialStatus = ACTIVE | EXPIRED | ROTATED | REVOKED | PENDING_ROTATION

datatype RotationStatus = SCHEDULED | IN_PROGRESS | COMPLETED | FAILED | CANCELLED

record Credential = FullBaseModel +
  credential_type :: CredentialType
  name :: pystr
  description :: "pystr option"
  service_identity_id :: uuid
  vault_path :: pystr
  vault_version :: "pystr option"
  encrypted_metadata :: "pystr option"
  status :: CredentialStatus
  created_date :: datetime
  expires_at :: "datetime option"
  last_used :: "datetime option"
  use_count :: int
  rotation_frequency_days :: int
  next_rotation_date :: "datetime option"
  last_rotated :: "datetime option"
  rotation_count :: int
  auto_rotation_enabled :: bool
  strength_score :: "int option"
  complexity_requirements :: "pystr option"
  requires_encryption :: bool
  access_restrictions :: "pystr option"
  external_id :: "pystr option"
  external_system :: "pystr option"
  sync_enabled :: bool
  last_sync :: "datetime option"
  notification_days_before_expiry :: int
  notification_sent :: bool
  emergency_contact :: "pystr option"

text \<open>\<open>Credential.needs_rotation\<close>; \<open>now\<close> is the clock reading of the last line.\<close>

definition needs_rotation :: "datetime \<Rightarrow> Credential \<Rightarrow> bool" where
  "needs_rotation now c =
     (if \<not> auto_rotation_enabled c then False
      else (case next_rotation_date c of
              None \<Rightarrow> True
            | Some d \<Rightarrow> now \<ge> d))"

text \<open>\<open>Credential.schedule_rotation(days_from_now=None)\<close>.\<close>

definition schedule_rotation :: "datetime \<Rightarrow> int option \<Rightarrow> Credential \<Rightarrow> Credential outcome" where
  "schedule_rotation now days_from_now c =
     (let days = (case days_from_now of None \<Rightarrow> rotation_frequency_days c | Some n \<Rightarrow> n)
      in case timedelta_days days of
           Inl e \<Rightarrow> Raised e c
         | Inr delta \<Rightarrow>
             (case datetime_add now delta of
                Inl e \<Rightarrow> Raised e c
              | Inr t \<Rightarrow> Returned (c\<lparr>next_rotation_date := Some t\<rparr>)))"

text \<open>
  \<open>Credential.mark_rotated\<close>: \<open>t_rotated\<close> is the clock reading stored in
  \<open>last_rotated\<close>, \<open>t_schedule\<close> the one taken inside \<open>schedule_rotation\<close>.
\<close>

definition mark_rotated :: "datetime \<Rightarrow> datetime \<Rightarrow> Credential \<Rightarrow> Credential outcome" where
  "mark_rotated t_rotated t_schedule c =
     (let c1 = c\<lparr>last_rotated := Some t_rotated\<rparr>;
          c2 = c1\<lparr>rotation_count := rotation_count c1 + 1\<rparr>
      in case schedule_rotation t_schedule None c2 of
           Raised e c3 \<Rightarrow> Raised e c3
         | Returned c3 \<Rightarrow> Returned (c3\<lparr>notification_sent := False\<rparr>))"


subsection \<open>Rotation attempts\<close>

text \<open>
  \<open>retry_count\<close> is a count: its column default is 0 and the only write to it in the
  repository is the increment in \<open>mark_failed\<close>, so it is a natural number here
  (Python's \<open>2 ** n\<close> is an integer exactly for those). The relationship attribute
  \<open>credential\<close> is the owning credential object.
\<close>

record CredentialRotation = FullBaseModel +
  credential_id :: uuid
  credential :: Credential
  status :: RotationStatus
  scheduled_date :: datetime
  started_at :: "datetime option"
  completed_at :: "datetime option"
  rotation_type :: pystr
  triggered_by :: "pystr option"
  reason :: "pystr option"
  old_vault_path :: "pystr option"
  new_vault_path :: "pystr option"
  error_message :: "pystr option"
  retry_count :: nat
  max_retries :: int
  next_retry_at :: "datetime option"
  verification_status :: pystr
  verification_details :: "pystr option"
  rollback_available :: bool
  duration_seconds :: "int option"
  systems_updated :: "pystr option"
  notifications_sent :: "pystr option"

definition can_retry :: "CredentialRotation \<Rightarrow> bool" where
  "can_retry r \<longleftrightarrow>
     CredentialRotation.status r = FAILED \<and> int (retry_count r) < max_retries r"

definition calculate_duration :: "CredentialRotation \<Rightarrow> int option" where
  "calculate_duration r =
     (case started_at r of
        None \<Rightarrow> None
      | Some s \<Rightarrow>
          (case completed_at r of
             None \<Rightarrow> None
           | Some c \<Rightarrow> Some (total_seconds_int (c - s))))"

definition mark_started :: "datetime \<Rightarrow> CredentialRotation \<Rightarrow> CredentialRotation outcome" where
  "mark_started now r =
     (let r1 = r\<lparr>CredentialRotation.status := IN_PROGRESS\<rparr>
      in Returned (r1\<lparr>started_at := Some now\<rparr>))"

definition mark_completed :: "datetime \<Rightarrow> pystr \<Rightarrow> CredentialRotation \<Rightarrow> CredentialRotation outcome" where
  "mark_completed now path r =
     (let r1 = r\<lparr>CredentialRotation.status := COMPLETED\<rparr>;
          r2 = r1\<lparr>completed_at := Some now\<rparr>;
          r3 = r2\<lparr>new_vault_path := Some path\<rparr>
      in Returned (r3\<lparr>duration_seconds := calculate_duration r3\<rparr>))"

text \<open>
  \<open>CredentialRotation.mark_failed\<close>: \<open>t_failed\<close> is the clock reading stored in
  \<open>completed_at\<close>, \<open>t_retry\<close> the one the retry delay is added to.
\<close>

definition mark_failed :: "datetime \<Rightarrow> datetime \<Rightarrow> pystr \<Rightarrow> CredentialRotation \<Rightarrow> CredentialRotation outcome" where
  "mark_failed t_failed t_retry msg r =
     (let r1 = r\<lparr>CredentialRotation.status := FAILED\<rparr>;
          r2 = r1\<lparr>error_message := Some msg\<rparr>;
          r3 = r2\<lparr>completed_at := Some t_failed\<rparr>;
          r4 = r3\<lparr>duration_seconds := calculate_duration r3\<rparr>
      in if can_retry r4 then
           (let r5 = r4\<lparr>retry_count := retry_count r4 + 1\<rparr>
            in case timedelta_minutes (2 ^ retry_count r5) of
                 Inl e \<Rightarrow> Raised e r5
               | Inr retry_delay \<Rightarrow>
                   (case datetime_add t_retry retry_delay of
                      Inl e \<Rightarrow> Raised e r5
                    | Inr t \<Rightarrow> Returned (r5\<lparr>next_retry_at := Some t\<rparr>)))
         else Returned r4)"


section \<open>Audit log (\<open>app/models/audit.py\<close>)\<close>

text \<open>
  \<open>calculate_checksum\<close> formats the timestamp with \<open>isoformat()\<close>, so the timestamp
  keeps the calendar fields a naive Python \<open>datetime\<close> object stores. The other
  datetime columns of the audit log are only carried along.
\<close>

record naive_datetime =
  year :: nat
  month :: nat
  day :: nat
  hour :: nat
  minute :: nat
  second :: nat
  microsecond :: nat




text \<open>\<open>"%d" % n\<close> and \<open>"%0wd" % n\<close> as code points (48 is the digit zero).\<close>

function decimal :: "nat \<Rightarrow> pystr" where
  "decimal n = (if n < 10 then [48 + n] else decimal (n div 10) @ [48 + n mod 10])"
  by pat_completeness auto
termination
  by (relation "measure id") auto

declare decimal.simps [simp del]

definition zero_pad :: "nat \<Rightarrow> nat \<Rightarrow> pystr" where
  "zero_pad w n = replicate (w - length (decimal n)) 48 @ decimal n"

text \<open>
  \<open>datetime.isoformat()\<close> of a naive datetime: \<open>YYYY-MM-DDTHH:MM:SS\<close>, followed by
  \<open>.ffffff\<close> when the microsecond is not zero.
\<close>

definition isoformat :: "naive_datetime \<Rightarrow> pystr" where
  "isoformat d =
     zero_pad 4 (year d) @ py ''-'' @ zero_pad 2 (month d) @ py ''-'' @ zero_pad 2 (day d) @
     py ''T'' @ zero_pad 2 (hour d) @ py '':'' @ zero_pad 2 (minute d) @ py '':'' @
     zero_pad 2 (second d) @
     (if microsecond d \<noteq> 0 then py ''.'' @ zero_pad 6 (microsecond d) else [])"


subsection \<open>\<open>json.dumps(data, sort_keys=True)\<close>\<close>

text \<open>
  The dictionary of \<open>calculate_checksum\<close> maps string keys to strings or \<open>None\<close>.
  \<open>json.dumps\<close> runs with its defaults (\<open>ensure_ascii=True\<close>, separators \<open>', '\<close> and
  \<open>': '\<close>). \<open>escape_char\<close> is the \<open>replace\<close> function of
  \<open>json.encoder.py_encode_basestring_ascii\<close>: printable ASCII other than the quote (34)
  and the backslash (92) stays, the others are escaped; a code point of \<open>0x10000\<close> and
  above is written as a pair of surrogates (\<open>0xd800 | ((n >> 10) & 0x3ff)\<close> and
  \<open>0xdc00 | (n & 0x3ff)\<close>, written here with \<open>div\<close>, \<open>mod\<close> and \<open>+\<close>).
\<close>

datatype json_value = JNull | JString pystr

definition hex_digit :: "nat \<Rightarrow> nat" where
  "hex_digit d = (if d < 10 then 48 + d else 87 + d)"

definition u_escape :: "nat \<Rightarrow> pystr" where
  "u_escape n =
     [92, 117, hex_digit (n div 4096 mod 16), hex_digit (n div 256 mod 16),
      hex_digit (n div 16 mod 16), hex_digit (n mod 16)]"

definition escape_char :: "nat \<Rightarrow> pystr" where
  "escape_char c =
     (if c = 92 then [92, 92]
      else if c = 34 then [92, 34]
      else if c = 8 then [92, 98]
      else if c = 12 then [92, 102]
      else if c = 10 then [92, 110]
      else if c = 13 then [92, 114]
      else if c = 9 then [92, 116]
      else if 32 \<le> c \<and> c \<le> 126 then [c]
      else if c < 65536 then u_escape c
      else (let n = c - 65536;
                s1 = 55296 + (n div 1024) mod 1024;
                s2 = 56320 + n mod 1024
            in u_escape s1 @ u_escape s2))"

definition encode_basestring_ascii :: "pystr \<Rightarrow> pystr" where
  "encode_basestring_ascii s = 34 # concat (map escape_char s) @ [34]"

fun json_encode_value :: "json_value \<Rightarrow> pystr" where
  "json_encode_value JNull = py ''null''"
| "json_encode_value (JString s) = encode_basestring_ascii s"

text \<open>Python compares strings by code point, lexicographically.\<close>

fun str_less :: "pystr \<Rightarrow> pystr \<Rightarrow> bool" where
  "str_less [] [] = False"
| "str_less [] (y # ys) = True"
| "str_less (x # xs) [] = False"
| "str_less (x # xs) (y # ys) = (x < y \<or> (x = y \<and> str_less xs ys))"

fun insert_item :: "pystr \<times> json_value \<Rightarrow> (pystr \<times> json_value) list \<Rightarrow> (pystr \<times> json_value) list" where
  "insert_item kv [] = [kv]"
| "insert_item kv (x # xs) =
     (if str_less (fst x) (fst kv) then x # insert_item kv xs else kv # x # xs)"

definition sort_items :: "(pystr \<times> json_value) list \<Rightarrow> (pystr \<times> json_value) list" where
  "sort_items items = foldr insert_item items []"

fun join_items :: "pystr list \<Rightarrow> pystr" where
  "join_items [] = []"
| "join_items [x] = x"
| "join_items (x # y # ys) = x @ py '', '' @ join_items (y # ys)"

definition encode_item :: "pystr \<times> json_value \<Rightarrow> pystr" where
  "encode_item kv = encode_basestring_ascii (fst kv) @ py '': '' @ json_encode_value (snd kv)"

definition json_dumps_sort_keys :: "(pystr \<times> json_value) list \<Rightarrow> pystr" where
  "json_dumps_sort_keys items =
     py ''{'' @ join_items (map encode_item (sort_items items)) @ py ''}''"

text \<open>\<open>str.encode()\<close>: UTF-8, which refuses a surrogate code point.\<close>

definition utf8_char :: "nat \<Rightarrow> py_error + nat list" where
  "utf8_char c =
     (if c < 128 then Inr [c]
      else if c < 2048 then Inr [192 + c div 64, 128 + c mod 64]
      else if 55296 \<le> c \<and> c \<le> 57343 then Inl UnicodeEncodeError
      else if c < 65536 then
        Inr [224 + c div 4096, 128 + (c div 64) mod 64, 128 + c mod 64]
      else
        Inr [240 + c div 262144, 128 + (c div 4096) mod 64, 128 + (c div 64) mod 64,
             128 + c mod 64])"

fun str_encode :: "pystr \<Rightarrow> py_error + nat list" where
  "str_encode [] = Inr []"
| "str_encode (c # cs) =
     (case utf8_char c of
        Inl e \<Rightarrow> Inl e
      | Inr bs \<Rightarrow> (case str_encode cs of Inl e \<Rightarrow> Inl e | Inr rest \<Rightarrow> Inr (bs @ rest)))"


subsection \<open>The model class\<close>

typedecl pyfloat

text \<open>
  The columns of \<open>AuditLog\<close>, which extends \<open>BaseModel\<close>. The relationship attributes
  (\<open>actor_user\<close>, \<open>target_user\<close> and the two service identities) play no part in the
  checksum and are left out. \<open>timestamp\<close> is filled by its column default
  (\<open>datetime.utcnow\<close>) when the INSERT statement runs, which is after the
  \<open>before_insert\<close> event: until then the attribute is \<open>None\<close> unless the caller set it.
\<close>

record AuditLog = BaseModel +
  event_type :: pystr
  event_subtype :: "pystr option"
  action :: pystr
  result :: pystr
  timestamp :: "naive_datetime option"
  duration_ms :: "int option"
  actor_user_id :: "uuid option"
  actor_service_identity_id :: "uuid option"
  actor_upn :: "pystr option"
  actor_display_name :: "pystr option"
  target_user_id :: "uuid option"
  target_service_identity_id :: "uuid option"
  target_resource_type :: "pystr option"
  target_resource_id :: "pystr option"
  target_resource_name :: "pystr option"
  session_id :: "pystr option"
  correlation_id :: "pystr option"
  request_id :: "pystr option"
  transaction_id :: "pystr option"
  source_ip :: "pystr option"
  user_agent :: "pystr option"
  geographic_location :: "pystr option"
  description :: pystr
  details :: "pystr option"
  previous_values :: "pystr option"
  new_values :: "pystr option"
  risk_score :: "int option"
  severity :: pystr
  is_suspicious :: bool
  anomaly_score :: "pyfloat option"
  compliance_frameworks :: "pystr option"
  regulatory_classification :: "pystr option"
  retention_date :: "datetime option"
  application :: pystr
  service :: "pystr option"
  api_endpoint :: "pystr option"
  http_method :: "pystr option"
  response_code :: "int option"
  error_code :: "pystr option"
  error_message :: "pystr option"
  stack_trace :: "pystr option"
  checksum :: "pystr option"
  signature :: "pystr option"

definition json_opt :: "pystr option \<Rightarrow> json_value" where
  "json_opt v = (case v of None \<Rightarrow> JNull | Some s \<Rightarrow> JString s)"

text \<open>The dictionary \<open>data\<close> of \<open>calculate_checksum\<close>, in the order it is written.\<close>

definition checksum_data :: "naive_datetime \<Rightarrow> AuditLog \<Rightarrow> (pystr \<times> json_value) list" where
  "checksum_data ts a =
     [(py ''timestamp'', JString (isoformat ts)),
      (py ''event_type'', JString (event_type a)),
      (py ''action'', JString (action a)),
      (py ''result'', JString (result a)),
      (py ''actor_upn'', json_opt (actor_upn a)),
      (py ''target_resource_type'', json_opt (target_resource_type a)),
      (py ''target_resource_id'', json_opt (target_resource_id a)),
      (py ''description'', JString (AuditLog.description a)),
      (py ''source_ip'', json_opt (source_ip a))]"

text \<open>
  \<open>AuditLog.calculate_checksum\<close>. \<open>hashlib.sha256(...).hexdigest()\<close> is the parameter
  \<open>sha256_hexdigest\<close>, from bytes to the hexadecimal digest.
\<close>

definition calculate_checksum :: "(nat list \<Rightarrow> pystr) \<Rightarrow> AuditLog \<Rightarrow> py_error + pystr" where
  "calculate_checksum sha256_hexdigest a =
     (case timestamp a of
        None \<Rightarrow> Inl AttributeError
      | Some ts \<Rightarrow>
          (let json_str = json_dumps_sort_keys (checksum_data ts a)
           in case str_encode json_str of
                Inl e \<Rightarrow> Inl e
              | Inr bytes \<Rightarrow> Inr (sha256_hexdigest bytes)))"

subsection \<open>The event listeners\<close>

definition calculate_checksum_before_insert :: "(nat list \<Rightarrow> pystr) \<Rightarrow> AuditLog \<Rightarrow> AuditLog outcome" where
  "calculate_checksum_before_insert sha256_hexdigest target =
     (case calculate_checksum sha256_hexdigest target of
        Inl e \<Rightarrow> Raised e target
      | Inr c \<Rightarrow> Returned (target\<lparr>checksum := Some c\<rparr>))"

definition prevent_audit_log_updates :: "AuditLog \<Rightarrow> AuditLog outcome" where
  "prevent_audit_log_updates target =
     Raised (ValueError (py ''Audit logs are immutable and cannot be updated'')) target"

definition prevent_audit_log_deletions :: "AuditLog \<Rightarrow> AuditLog outcome" where
  "prevent_audit_log_deletions target =
     Raised (ValueError (py ''Audit logs cannot be deleted except through retention policies''))
       target"

text \<open>
  What the ORM does with the listeners when a session is flushed: the mapper event of
  an object runs before its INSERT, UPDATE or DELETE statement, and a listener that
  raises aborts the flush, so that the table keeps the rows it had. The table
  \<open>audit_logs\<close> maps a primary key to its row; an INSERT of a key that is present
  violates the primary key.
\<close>

type_synonym audit_logs = "uuid \<rightharpoonup> AuditLog"

definition flush_insert :: "(nat list \<Rightarrow> pystr) \<Rightarrow> audit_logs \<Rightarrow> AuditLog \<Rightarrow> audit_logs outcome" where
  "flush_insert sha256_hexdigest table target =
     (case calculate_checksum_before_insert sha256_hexdigest target of
        Raised e t \<Rightarrow> Raised e table
      | Returned t \<Rightarrow>
          (if id' t \<in> dom table then Raised IntegrityError table
           else Returned (table(id' t \<mapsto> t))))"

definition flush_update :: "audit_logs \<Rightarrow> AuditLog \<Rightarrow> audit_logs outcome" where
  "flush_update table target =
     (case prevent_audit_log_updates target of
        Raised e t \<Rightarrow> Raised e table
      | Returned t \<Rightarrow> Returned (table(id' t \<mapsto> t)))"

definition flush_delete :: "audit_logs \<Rightarrow> AuditLog \<Rightarrow> audit_logs outcome" where
  "flush_delete table target =
     (case prevent_audit_log_deletions target of
        Raised e t \<Rightarrow> Raised e table
      | Returned t \<Rightarrow> Returned (table(id' t := None)))"


section \<open>Concrete objects\<close>

text \<open>
  A password credential and a rotation attempt of it, created on 2024-01-01 00:00:00
  (\<open>63839664000000000\<close> microseconds after \<open>datetime.min\<close>), and an audit record.
\<close>

definition example_credential :: Credential where
  "example_credential =
     \<lparr> id' = 1, is_deleted = False, deleted_at = None, metadata_json = None,
       created_at = 63839664000000000, updated_at = 63839664000000000,
       created_by = None, updated_by = None, version = 1,
       compliance_tags = None, retention_date = None, classification = None,
       credential_type = PASSWORD, name = py ''svc-password'', description = None,
       service_identity_id = 7, vault_path = py ''credentials/svc/password/20240101/1'',
       vault_version = None, encrypted_metadata = None,
       Credential.status = ACTIVE, created_date = 63839664000000000,
       expires_at = None, last_used = None, use_count = 0,
       rotation_frequency_days = 90, next_rotation_date = None, last_rotated = None,
       rotation_count = 0, auto_rotation_enabled = True, strength_score = None,
       complexity_requirements = None, requires_encryption = True,
       access_restrictions = None, external_id = None, external_system = None,
       sync_enabled = False, last_sync = None, notification_days_before_expiry = 14,
       notification_sent = True, emergency_contact = None \<rparr>"

definition example_rotation :: CredentialRotation where
  "example_rotation =
     \<lparr> id' = 2, is_deleted = False, deleted_at = None, metadata_json = None,
       created_at = 63839664000000000, updated_at = 63839664000000000,
       created_by = None, updated_by = None, version = 1,
       compliance_tags = None, retention_date = None, classification = None,
       credential_id = 1, credential = example_credential,
       CredentialRotation.status = IN_PROGRESS, scheduled_date = 63839664000000000,
       started_at = Some 63839664000000000, completed_at = None,
       rotation_type = py ''automatic'', triggered_by = None, reason = None,
       old_vault_path = None, new_vault_path = None,
       CredentialRotation.error_message = None,
       retry_count = 0, max_retries = 3, next_retry_at = None,
       verification_status = py ''pending'', verification_details = None,
       rollback_available = True, duration_seconds = None,
       systems_updated = None, notifications_sent = None \<rparr>"

definition example_audit_log :: AuditLog where
  "example_audit_log =
     \<lparr> id' = 10, is_deleted = False, deleted_at = None, metadata_json = None,
       event_type = py ''credential_rotation'', event_subtype = None,
       action = py ''COMPLETED'', result = py ''success'',
       timestamp = Some \<lparr> year = 2024, month = 1, day = 2, hour = 3, minute = 4,
                           second = 5, microsecond = 0 \<rparr>,
       duration_ms = None, actor_user_id = None, actor_service_identity_id = None,
       actor_upn = Some (py ''admin@example.com''), actor_display_name = None,
       target_user_id = None, target_service_identity_id = None,
       target_resource_type = Some (py ''credential''), target_resource_id = Some (py ''1''),
       target_resource_name = None, session_id = None, correlation_id = None,
       request_id = None, transaction_id = None, source_ip = None, user_agent = None,
       geographic_location = None, AuditLog.description = py ''rotated'', details = None,
       previous_values = None, new_values = None, risk_score = None,
       severity = py ''info'', is_suspicious = False, anomaly_score = None,
       compliance_frameworks = None, regulatory_classification = None,
       AuditLog.retention_date = None, application = py ''menshun-backend'', service = None,
       api_endpoint = None, http_method = None, response_code = None, error_code = None,
       AuditLog.error_message = None, stack_trace = None, checksum = None,
       signature = None \<rparr>"

text \<open>
  Audit records made from the example: one that differs from it in fields the checksum
  does not read, one that differs in the description, and two whose descriptions are
  the surrogate pair \<open>0xd83d 0xde00\<close> and the single code point \<open>0x1f600\<close>.
\<close>

definition example_audit_log_b :: AuditLog where
  "example_audit_log_b =
     example_audit_log\<lparr>id' := 11, session_id := Some (py ''s-1''),
       details := Some (py ''{}''), previous_values := Some (py ''old''),
       new_values := Some (py ''new''), risk_score := Some 99,
       severity := py ''critical'', is_suspicious := True\<rparr>"






text \<open>An attempt that completed after 30 seconds.\<close>

definition completed_rotation :: CredentialRotation where
  "completed_rotation =
     example_rotation\<lparr>CredentialRotation.status := COMPLETED,
        completed_at := Some 63839664030000000,
        new_vault_path := Some (py ''credentials/svc/password/20240101/2''),
        duration_seconds := Some 30\<rparr>"


section \<open>Notions used in the statements and proofs\<close>

text \<open>
  The nine values \<open>calculate_checksum\<close> reads from a record, in the order of its
  dictionary.
\<close>

definition checksum_projection ::
  "AuditLog \<Rightarrow> naive_datetime option \<times> pystr \<times> pystr \<times> pystr \<times> pystr option \<times>
     pystr option \<times> pystr option \<times> pystr \<times> pystr option" where
  "checksum_projection a =
     (timestamp a, event_type a, action a, result a, actor_upn a,
      target_resource_type a, target_resource_id a, AuditLog.description a, source_ip a)"














section \<open>Rotation schedule of a credential\<close>

lemma schedule_rotation_in_range:
  assumes "\<bar>rotation_frequency_days c\<bar> \<le> MAX_DELTA_DAYS"
    and "valid_datetime (now + rotation_frequency_days c * US_PER_DAY)"
  shows "schedule_rotation now None c =
           Returned (c\<lparr>next_rotation_date :=
                         Some (now + rotation_frequency_days c * US_PER_DAY)\<rparr>)"
  using assms
  by (simp add: schedule_rotation_def timedelta_days_def timedelta_of_us_def datetime_add_def
      US_PER_DAY_def Let_def abs_le_iff)

lemma schedule_rotation_Returned:
  assumes "schedule_rotation now None c = Returned c'"
  shows "c' = c\<lparr>next_rotation_date := Some (now + rotation_frequency_days c * US_PER_DAY)\<rparr>"
  using assms
  by (auto simp add: schedule_rotation_def timedelta_days_def timedelta_of_us_def
      datetime_add_def Let_def split: if_splits sum.splits)

lemma mark_rotated_Returned:
  assumes "mark_rotated t1 t2 c = Returned c'"
  shows "c' = c\<lparr>last_rotated := Some t1,
                  rotation_count := rotation_count c + 1,
                  next_rotation_date := Some (t2 + rotation_frequency_days c * US_PER_DAY),
                  notification_sent := False\<rparr>"
proof -
  let ?c2 = "c\<lparr>last_rotated := Some t1, rotation_count := rotation_count c + 1\<rparr>"
  from assms obtain c3 where s: "schedule_rotation t2 None ?c2 = Returned c3"
    and c': "c' = c3\<lparr>notification_sent := False\<rparr>"
    by (auto simp add: mark_rotated_def Let_def split: outcome.splits)
  from schedule_rotation_Returned [OF s] c' show ?thesis by simp
qed

text \<open>
  Claim C4, as the code has it. \<open>mark_rotated\<close> reads the clock twice. When
  \<open>rotation_frequency_days\<close> is at most 999999999 in magnitude and the second reading
  plus that many days is a datetime, the method returns the credential with
  \<open>last_rotated\<close> the first reading, \<open>rotation_count\<close> incremented by exactly 1,
  \<open>next_rotation_date\<close> the second reading plus \<open>rotation_frequency_days\<close> days and
  \<open>notification_sent = False\<close>, and with no other field changed.
\<close>

theorem mark_rotated_effect:
  assumes "\<bar>rotation_frequency_days c\<bar> \<le> MAX_DELTA_DAYS"
    and "valid_datetime (t_schedule + rotation_frequency_days c * US_PER_DAY)"
  shows "mark_rotated t_rotated t_schedule c =
           Returned (c\<lparr>last_rotated := Some t_rotated,
                       rotation_count := rotation_count c + 1,
                       next_rotation_date :=
                         Some (t_schedule + rotation_frequency_days c * US_PER_DAY),
                       notification_sent := False\<rparr>)"
  using assms by (simp add: mark_rotated_def schedule_rotation_in_range)

theorem mark_rotated_effect_witness:
  "\<bar>rotation_frequency_days example_credential\<bar> \<le> MAX_DELTA_DAYS \<and>
   valid_datetime (63839664000000003 + rotation_frequency_days example_credential * US_PER_DAY) \<and>
   mark_rotated 63839664000000000 63839664000000003 example_credential =
     Returned (example_credential\<lparr>last_rotated := Some 63839664000000000,
                 rotation_count := 1,
                 next_rotation_date := Some (63839664000000003 + 90 * 86400000000),
                 notification_sent := False\<rparr>)"
  using mark_rotated_effect [of example_credential 63839664000000003 63839664000000000]
  by (simp add: example_credential_def MAX_DELTA_DAYS_def valid_datetime_def MAX_DATETIME_def
      US_PER_DAY_def)

text \<open>
  Claim C4 as stated fails. With the second reading 3 microseconds after the first,
  \<open>next_rotation_date\<close> is not \<open>last_rotated\<close> plus 90 days. With
  \<open>rotation_frequency_days = 1000000000\<close> the method raises \<open>OverflowError\<close> after it
  has set \<open>last_rotated\<close> and incremented \<open>rotation_count\<close>: \<open>next_rotation_date\<close>
  stays unset and \<open>notification_sent\<close> stays set.
\<close>

theorem mark_rotated_two_readings_counterexample:
  "mark_rotated 63839664000000000 63839664000000003 example_credential =
     Returned (example_credential\<lparr>last_rotated := Some 63839664000000000,
                 rotation_count := 1,
                 next_rotation_date := Some 63847440000000003,
                 notification_sent := False\<rparr>) \<and>
   (63847440000000003::int) \<noteq> 63839664000000000 + 90 * US_PER_DAY \<and>
   mark_rotated 63839664000000000 63839664000000003
       (example_credential\<lparr>rotation_frequency_days := 1000000000\<rparr>) =
     Raised OverflowError
       (example_credential\<lparr>rotation_frequency_days := 1000000000,
          last_rotated := Some 63839664000000000, rotation_count := 1\<rparr>) \<and>
   next_rotation_date example_credential = None \<and>
   notification_sent example_credential = True"
  by (simp add: mark_rotated_def schedule_rotation_def timedelta_days_def timedelta_of_us_def
      datetime_add_def valid_datetime_def Let_def example_credential_def MAX_DELTA_DAYS_def
      MAX_DATETIME_def US_PER_DAY_def)

text \<open>
  Claim C9, as the code has it. When \<open>rotation_frequency_days\<close> is at least 1 and the
  clock does not run backwards between the two readings, \<open>next_rotation_date\<close> after
  \<open>mark_rotated\<close> is strictly later than the completion time stored in
  \<open>last_rotated\<close> (and than the reading it was counted from).
\<close>

theorem next_rotation_after_completion:
  assumes "mark_rotated t_rotated t_schedule c = Returned c'"
    and "1 \<le> rotation_frequency_days c"
    and "t_rotated \<le> t_schedule"
  shows "\<exists>n. next_rotation_date c' = Some n \<and> last_rotated c' = Some t_rotated \<and>
             t_rotated < n \<and> t_schedule < n"
proof -
  have "0 < rotation_frequency_days c * US_PER_DAY"
    using assms(2) by (simp add: US_PER_DAY_def)
  with mark_rotated_Returned [OF assms(1)] assms(3) show ?thesis by simp
qed

theorem next_rotation_after_completion_witness:
  "mark_rotated 63839664000000000 63839664000000003 example_credential =
     Returned (example_credential\<lparr>last_rotated := Some 63839664000000000,
                 rotation_count := 1,
                 next_rotation_date := Some 63847440000000003,
                 notification_sent := False\<rparr>) \<and>
   1 \<le> rotation_frequency_days example_credential \<and>
   (63839664000000000::int) \<le> 63839664000000003 \<and>
   (\<exists>n. next_rotation_date
          (example_credential\<lparr>last_rotated := Some 63839664000000000,
                 rotation_count := 1,
                 next_rotation_date := Some 63847440000000003,
                 notification_sent := False\<rparr>) = Some n \<and>
        63839664000000000 < n)"
proof -
  let ?c' = "example_credential\<lparr>last_rotated := Some 63839664000000000,
                 rotation_count := 1,
                 next_rotation_date := Some 63847440000000003,
                 notification_sent := False\<rparr>"
  have r: "mark_rotated 63839664000000000 63839664000000003 example_credential = Returned ?c'"
    by (simp add: mark_rotated_def schedule_rotation_def timedelta_days_def
        timedelta_of_us_def datetime_add_def valid_datetime_def Let_def example_credential_def
        MAX_DELTA_DAYS_def MAX_DATETIME_def US_PER_DAY_def)
  have f: "1 \<le> rotation_frequency_days example_credential"
    by (simp add: example_credential_def)
  have t: "(63839664000000000::int) \<le> 63839664000000003" by simp
  from next_rotation_after_completion [OF r f t] r f show ?thesis by auto
qed

text \<open>
  Claim C9 as stated fails: \<open>mark_rotated\<close> accepts every \<open>rotation_frequency_days\<close>
  whose date stays in range. With 0 days and both readings at the same instant
  \<open>next_rotation_date\<close> is that instant; with \<open>-1\<close> it lies a day before the completion
  time, although the second reading is 5 microseconds after the first.
\<close>

theorem next_rotation_not_future_counterexample:
  "mark_rotated 63839664000000000 63839664000000000
     (example_credential\<lparr>rotation_frequency_days := 0\<rparr>) =
   Returned (example_credential\<lparr>rotation_frequency_days := 0,
       last_rotated := Some 63839664000000000, rotation_count := 1,
       next_rotation_date := Some 63839664000000000, notification_sent := False\<rparr>) \<and>
   mark_rotated 63839664000000000 63839664000000005
     (example_credential\<lparr>rotation_frequency_days := - 1\<rparr>) =
   Returned (example_credential\<lparr>rotation_frequency_days := - 1,
       last_rotated := Some 63839664000000000, rotation_count := 1,
       next_rotation_date := Some 63839577600000005, notification_sent := False\<rparr>)"
  by (simp add: mark_rotated_def schedule_rotation_def timedelta_days_def timedelta_of_us_def
      datetime_add_def valid_datetime_def Let_def example_credential_def MAX_DELTA_DAYS_def
      MAX_DATETIME_def US_PER_DAY_def)

text \<open>
  Claim C6, as the code has it. \<open>needs_rotation\<close> holds exactly when
  \<open>auto_rotation_enabled\<close> is set and \<open>next_rotation_date\<close> is unset or not after
  \<open>now\<close>; a credential with \<open>auto_rotation_enabled = False\<close> is never due; the status
  is not looked at.
\<close>

theorem needs_rotation_iff:
  "needs_rotation now c =
     (auto_rotation_enabled c \<and>
      (next_rotation_date c = None \<or> (\<exists>d. next_rotation_date c = Some d \<and> d \<le> now))) \<and>
   needs_rotation now (c\<lparr>auto_rotation_enabled := False\<rparr>) = False \<and>
   needs_rotation now (c\<lparr>Credential.status := s\<rparr>) = needs_rotation now c"
  by (auto simp add: needs_rotation_def split: option.splits)

text \<open>
  Claim C6 as stated fails in the part that asks for an ACTIVE credential: a revoked
  credential with automatic rotation and no \<open>next_rotation_date\<close> is due.
\<close>

theorem needs_rotation_ignores_status_counterexample:
  "needs_rotation 63839664000000000 (example_credential\<lparr>Credential.status := REVOKED\<rparr>) \<and>
   Credential.status (example_credential\<lparr>Credential.status := REVOKED\<rparr>) \<noteq> ACTIVE"
  by (simp add: needs_rotation_def example_credential_def)

text \<open>
  Claim C7, as the code has it. \<open>mark_rotated\<close> does not look at the status: on a
  credential that is neither ACTIVE nor PENDING\_ROTATION it returns as on any other,
  with the four rotation fields updated and the status as it was.
\<close>

theorem mark_rotated_any_status:
  assumes "Credential.status c \<noteq> ACTIVE" and "Credential.status c \<noteq> PENDING_ROTATION"
    and "\<bar>rotation_frequency_days c\<bar> \<le> MAX_DELTA_DAYS"
    and "valid_datetime (t_schedule + rotation_frequency_days c * US_PER_DAY)"
  shows "\<exists>c'. mark_rotated t_rotated t_schedule c = Returned c' \<and>
           last_rotated c' = Some t_rotated \<and>
           rotation_count c' = rotation_count c + 1 \<and>
           next_rotation_date c' = Some (t_schedule + rotation_frequency_days c * US_PER_DAY) \<and>
           notification_sent c' = False \<and>
           Credential.status c' = Credential.status c"
  using assms(3,4) by (simp add: mark_rotated_def schedule_rotation_in_range)

theorem mark_rotated_any_status_witness:
  "Credential.status (example_credential\<lparr>Credential.status := EXPIRED\<rparr>) \<noteq> ACTIVE \<and>
   Credential.status (example_credential\<lparr>Credential.status := EXPIRED\<rparr>)
     \<noteq> PENDING_ROTATION \<and>
   \<bar>rotation_frequency_days (example_credential\<lparr>Credential.status := EXPIRED\<rparr>)\<bar>
     \<le> MAX_DELTA_DAYS \<and>
   valid_datetime (63839664000000000 +
     rotation_frequency_days (example_credential\<lparr>Credential.status := EXPIRED\<rparr>)
       * US_PER_DAY) \<and>
   (\<exists>c'. mark_rotated 63839664000000000 63839664000000000
            (example_credential\<lparr>Credential.status := EXPIRED\<rparr>) = Returned c' \<and>
         last_rotated c' = Some 63839664000000000 \<and>
         rotation_count c' = 1 \<and>
         next_rotation_date c' = Some 63847440000000000 \<and>
         notification_sent c' = False \<and>
         Credential.status c' = EXPIRED)"
  using mark_rotated_any_status
    [of "example_credential\<lparr>Credential.status := EXPIRED\<rparr>" 63839664000000000
        63839664000000000]
  by (simp add: example_credential_def MAX_DELTA_DAYS_def valid_datetime_def MAX_DATETIME_def
      US_PER_DAY_def)

text \<open>
  Claim C7 as stated fails: marking a revoked credential rotated returns and changes
  its rotation fields.
\<close>

theorem mark_rotated_revoked_counterexample:
  "Credential.status (example_credential\<lparr>Credential.status := REVOKED\<rparr>) = REVOKED \<and>
   mark_rotated 63839664000000000 63839664000000000
      (example_credential\<lparr>Credential.status := REVOKED\<rparr>) =
   Returned (example_credential\<lparr>Credential.status := REVOKED,
       last_rotated := Some 63839664000000000, rotation_count := 1,
       next_rotation_date := Some 63847440000000000, notification_sent := False\<rparr>)"
  by (simp add: mark_rotated_def schedule_rotation_def timedelta_days_def timedelta_of_us_def
      datetime_add_def valid_datetime_def Let_def example_credential_def MAX_DELTA_DAYS_def
      MAX_DATETIME_def US_PER_DAY_def)


section \<open>Rotation attempts\<close>







text \<open>
  Claim C3, as the code has it. No transition looks at the status the attempt is in:
  from every status, the terminal ones included, \<open>mark_started\<close> returns with the
  status IN\_PROGRESS and \<open>started_at\<close> stamped, \<open>mark_completed\<close> returns with the
  status COMPLETED, and \<open>mark_failed\<close> leaves the status FAILED.
\<close>

theorem transitions_unguarded:
  "mark_started now r =
     Returned (r\<lparr>CredentialRotation.status := IN_PROGRESS, started_at := Some now\<rparr>) \<and>
   is_returned (mark_completed now path r) \<and>
   CredentialRotation.status (state_of (mark_completed now path r)) = COMPLETED \<and>
   CredentialRotation.status (state_of (mark_failed t_failed t_retry msg r)) = FAILED"
  by (simp add: mark_started_def mark_completed_def mark_failed_def Let_def
      split: sum.splits)

text \<open>
  Claim C3 as stated fails: starting a completed attempt raises nothing and puts it
  back to IN\_PROGRESS with a new \<open>started_at\<close>.
\<close>

theorem terminal_transition_counterexample:
  "CredentialRotation.status completed_rotation = COMPLETED \<and>
   mark_started 63839664090000000 completed_rotation =
     Returned (completed_rotation\<lparr>CredentialRotation.status := IN_PROGRESS,
                 started_at := Some 63839664090000000\<rparr>) \<and>
   state_of (mark_started 63839664090000000 completed_rotation) \<noteq> completed_rotation"
  by (simp add: mark_started_def completed_rotation_def example_rotation_def
      example_credential_def)

lemma mantissa_shift_lower:
  assumes "0 < n" and "72 \<le> s + fuel"
  shows "4503599627370496 * 1000000 \<le> n * 2 ^ mantissa_shift fuel n s"
  using assms
proof (induction fuel arbitrary: s)
  case 0
  then have "(2::nat) ^ 72 \<le> 2 ^ s" by (intro power_increasing) auto
  then have a: "(4722366482869645213696::nat) \<le> 2 ^ s" by simp
  have b: "(2::nat) ^ s \<le> n * 2 ^ s" using 0(1) by simp
  from a b have "4722366482869645213696 \<le> n * 2 ^ s" by (rule order_trans)
  then have "4503599627370496 * 1000000 \<le> n * 2 ^ s" by linarith
  then show ?case by simp
next
  case (Suc fuel)
  then show ?case by simp
qed

lemma round_half_even_cases:
  "round_half_even x y = x div y \<or>
   (round_half_even x y = x div y + 1 \<and> y \<le> 2 * (x mod y))"
  by (auto simp add: round_half_even_def Let_def)

lemma float_seconds_exact:
  assumes "n < 9007199254740992"
  shows "float_seconds n = n div 1000000"
proof (cases "n = 0")
  case True
  then show ?thesis by (simp add: float_seconds_def)
next
  case False
  then have pos: "0 < n" by simp
  define P :: nat where "P = 2 ^ mantissa_shift 72 n 0"
  define Q where "Q = n div 1000000"
  define m where "m = round_half_even (n * P) 1000000"
  have Ppos: "0 < P" by (simp add: P_def)
  have "4503599627370496 * 1000000 \<le> n * P"
    unfolding P_def using mantissa_shift_lower [OF pos, of 0 72] by simp
  also have "n * P \<le> 9007199254740991 * P" using assms by simp
  finally have Pbig: "500000 < P" by simp
  have nlo: "Q * 1000000 \<le> n" by (simp add: Q_def)
  have nhi: "n + 1 \<le> (Q + 1) * 1000000"
    using div_less_iff_less_mult [of 1000000 n "Q + 1"] by (simp add: Q_def)
  have q0lo: "Q * P \<le> (n * P) div 1000000"
  proof -
    have "Q * P * 1000000 \<le> n * P" using nlo by (simp add: mult.commute mult.left_commute)
    then show ?thesis by (simp add: less_eq_div_iff_mult_less_eq)
  qed
  have xhi: "n * P + P \<le> (Q + 1) * P * 1000000"
  proof -
    have "(n + 1) * P \<le> (Q + 1) * 1000000 * P" using nhi by (intro mult_right_mono) auto
    then show ?thesis by (simp add: algebra_simps)
  qed
  have mlo: "Q * P \<le> m"
    using round_half_even_cases [of "n * P" 1000000] q0lo by (auto simp add: m_def)
  have mhi: "m < (Q + 1) * P"
  proof (rule ccontr)
    assume "\<not> m < (Q + 1) * P"
    then have ge: "(Q + 1) * P \<le> m" by simp
    have q0hi: "(n * P) div 1000000 < (Q + 1) * P"
      using xhi Ppos by (simp add: div_less_iff_less_mult)
    from round_half_even_cases [of "n * P" 1000000] ge q0hi
    have up: "m = (n * P) div 1000000 + 1" and half: "1000000 \<le> 2 * ((n * P) mod 1000000)"
      by (auto simp add: m_def)
    from up ge q0hi have q0: "(n * P) div 1000000 + 1 = (Q + 1) * P" by simp
    have x: "n * P = (n * P) div 1000000 * 1000000 + (n * P) mod 1000000" by simp
    have "(Q + 1) * P * 1000000 = ((n * P) div 1000000 + 1) * 1000000"
      using q0 by simp
    also have "\<dots> = (n * P) div 1000000 * 1000000 + 1000000" by simp
    finally have "2 * ((Q + 1) * P * 1000000) \<le> 2 * (n * P) + 1000000"
      using x half by linarith
    with xhi have "2 * P \<le> 1000000" by linarith
    with Pbig show False by simp
  qed
  have "m div P = Q"
    using mlo mhi Ppos by (intro div_nat_eqI) (simp_all add: mult.commute)
  then show ?thesis
    using False by (simp add: float_seconds_def Let_def P_def m_def Q_def)
qed

lemma total_seconds_int_bounds:
  assumes "0 \<le> d" and "d < FLOAT_EXACT"
  shows "total_seconds_int d * US_PER_SECOND \<le> d \<and>
         d < (total_seconds_int d + 1) * US_PER_SECOND"
proof -
  from assms have "nat d < 9007199254740992" by (simp add: FLOAT_EXACT_def)
  from float_seconds_exact [OF this] assms(1)
  have "total_seconds_int d = d div 1000000"
    by (simp add: total_seconds_int_def zdiv_int)
  then show ?thesis by (simp add: US_PER_SECOND_def) presburger
qed

text \<open>
  Claim C5, as the code has it. \<open>mark_completed\<close> returns the attempt with the status
  COMPLETED, \<open>completed_at\<close> stamped, \<open>new_vault_path\<close> recorded and
  \<open>duration_seconds\<close> the whole seconds from \<open>started_at\<close> to \<open>completed_at\<close> (for an
  attempt started not after its completion and less than \<open>2**53\<close> microseconds before
  it); nothing else changes, and the owning credential in particular is untouched.
\<close>

theorem mark_completed_effect:
  assumes "started_at r = Some s" and "s \<le> now" and "now - s < FLOAT_EXACT"
  shows "\<exists>r' d. mark_completed now path r = Returned r' \<and>
           CredentialRotation.status r' = COMPLETED \<and>
           completed_at r' = Some now \<and> new_vault_path r' = Some path \<and>
           duration_seconds r' = Some d \<and>
           d * US_PER_SECOND \<le> now - s \<and> now - s < (d + 1) * US_PER_SECOND \<and>
           credential r' = credential r \<and>
           r' = r\<lparr>CredentialRotation.status := COMPLETED, completed_at := Some now,
                   new_vault_path := Some path, duration_seconds := Some d\<rparr>"
proof -
  have "0 \<le> now - s" using assms(2) by simp
  from total_seconds_int_bounds [OF this assms(3)] assms(1) show ?thesis
    by (simp add: mark_completed_def calculate_duration_def Let_def)
qed

theorem mark_completed_effect_witness:
  "started_at example_rotation = Some 63839664000000000 \<and>
   (63839664000000000::int) \<le> 63839664030500000 \<and>
   (63839664030500000::int) - 63839664000000000 < FLOAT_EXACT \<and>
   (\<exists>r' d. mark_completed 63839664030500000 (py ''credentials/svc/password/20240101/2'')
              example_rotation = Returned r' \<and>
           CredentialRotation.status r' = COMPLETED \<and>
           completed_at r' = Some 63839664030500000 \<and>
           new_vault_path r' = Some (py ''credentials/svc/password/20240101/2'') \<and>
           duration_seconds r' = Some d \<and> d = 30 \<and>
           credential r' = example_credential)"
proof -
  have h: "started_at example_rotation = Some 63839664000000000"
    "(63839664000000000::int) \<le> 63839664030500000"
    "(63839664030500000::int) - 63839664000000000 < FLOAT_EXACT"
    by (simp_all add: example_rotation_def FLOAT_EXACT_def)
  from mark_completed_effect [OF h, of "py ''credentials/svc/password/20240101/2''"]
  obtain r' d where *:
    "mark_completed 63839664030500000 (py ''credentials/svc/password/20240101/2'')
              example_rotation = Returned r'"
    "CredentialRotation.status r' = COMPLETED"
    "completed_at r' = Some 63839664030500000"
    "new_vault_path r' = Some (py ''credentials/svc/password/20240101/2'')"
    "duration_seconds r' = Some d"
    "d * US_PER_SECOND \<le> 63839664030500000 - 63839664000000000"
    "63839664030500000 - 63839664000000000 < (d + 1) * US_PER_SECOND"
    "credential r' = credential example_rotation"
    by blast
  from *(6,7) have "d = 30" by (simp add: US_PER_SECOND_def)
  moreover have "credential example_rotation = example_credential"
    by (simp add: example_rotation_def)
  ultimately show ?thesis using h * by auto
qed

text \<open>
  Claim C5 as stated fails in its last part: after \<open>mark_completed\<close> the owning
  credential is the one it was, with \<open>rotation_count\<close> 0 and no \<open>last_rotated\<close>.
\<close>

theorem completion_leaves_credential_counterexample:
  "is_returned (mark_completed 63839664030000000 (py ''credentials/svc/password/20240101/2'')
       example_rotation) \<and>
   credential (state_of (mark_completed 63839664030000000
       (py ''credentials/svc/password/20240101/2'') example_rotation)) = example_credential \<and>
   rotation_count example_credential = 0 \<and> last_rotated example_credential = None"
  by (simp add: mark_completed_def Let_def example_rotation_def example_credential_def)


section \<open>Decimal numerals and \<open>isoformat\<close>\<close>













section \<open>Escaped strings can be read back\<close>















section \<open>The canonical JSON text\<close>











lemma checksum_data_cong:
  assumes "checksum_projection a = checksum_projection b"
  shows "checksum_data ts a = checksum_data ts b"
  using assms by (simp add: checksum_projection_def checksum_data_def)

lemma calculate_checksum_cong:
  assumes "checksum_projection a = checksum_projection b"
  shows "calculate_checksum h a = calculate_checksum h b"
proof -
  from assms have "timestamp a = timestamp b" by (simp add: checksum_projection_def)
  with checksum_data_cong [OF assms] show ?thesis
    by (cases "timestamp b") (simp_all add: calculate_checksum_def)
qed

section \<open>The JSON text is ASCII\<close>













section \<open>Audit records\<close>

text \<open>
  Claim C2. An attempt to persist a change of an audit record, and an attempt to
  delete one, is refused: the listener raises (a \<open>ValueError\<close>, which is the
  immutability violation of the design) whatever the record and whatever the change,
  the flush is aborted, and the table holds the rows it held before, unchanged.
\<close>

theorem audit_log_immutable:
  "prevent_audit_log_updates target =
     Raised (ValueError (py ''Audit logs are immutable and cannot be updated'')) target \<and>
   flush_update table target =
     Raised (ValueError (py ''Audit logs are immutable and cannot be updated'')) table \<and>
   flush_delete table target =
     Raised (ValueError (py ''Audit logs cannot be deleted except through retention policies''))
       table \<and>
   state_of (flush_update table target) = table \<and>
   state_of (flush_delete table target) = table"
  by (simp add: flush_update_def flush_delete_def prevent_audit_log_updates_def
      prevent_audit_log_deletions_def)

text \<open>
  Claim C10. The checksum depends on the nine projected values only: two records that
  agree on \<open>timestamp\<close>, \<open>event_type\<close>, \<open>action\<close>, \<open>result\<close>, \<open>actor_upn\<close>,
  \<open>target_resource_type\<close>, \<open>target_resource_id\<close>, \<open>description\<close> and \<open>source_ip\<close>
  get the same result from \<open>calculate_checksum\<close>, whatever their other fields hold.
  A change confined to the other fields therefore leaves the recomputed checksum equal
  to the stored one.
\<close>

theorem checksum_ignores_other_fields:
  assumes "checksum_projection a = checksum_projection b"
  shows "calculate_checksum sha256_hexdigest a = calculate_checksum sha256_hexdigest b"
  using assms by (rule calculate_checksum_cong)

theorem checksum_ignores_other_fields_witness:
  "checksum_projection example_audit_log = checksum_projection example_audit_log_b \<and>
   severity example_audit_log \<noteq> severity example_audit_log_b \<and>
   risk_score example_audit_log \<noteq> risk_score example_audit_log_b \<and>
   details example_audit_log \<noteq> details example_audit_log_b \<and>
   (\<forall>sha256_hexdigest.
      calculate_checksum sha256_hexdigest example_audit_log =
      calculate_checksum sha256_hexdigest example_audit_log_b)"
proof -
  have p: "checksum_projection example_audit_log = checksum_projection example_audit_log_b"
    by (simp add: checksum_projection_def example_audit_log_b_def)
  have "severity example_audit_log \<noteq> severity example_audit_log_b"
    "risk_score example_audit_log \<noteq> risk_score example_audit_log_b"
    "details example_audit_log \<noteq> details example_audit_log_b"
    by (simp_all add: example_audit_log_b_def example_audit_log_def py_def)
  with p checksum_ignores_other_fields [OF p] show ?thesis by simp
qed


text \<open>
  With the timestamp left to its column default the attribute is still \<open>None\<close> when
  the \<open>before_insert\<close> listener runs: \<open>calculate_checksum\<close> raises
  \<open>AttributeError\<close>, no checksum is stored and the INSERT is not reached.
\<close>

lemma insert_without_timestamp_raises:
  "calculate_checksum_before_insert sha256_hexdigest (a\<lparr>timestamp := None\<rparr>) =
     Raised AttributeError (a\<lparr>timestamp := None\<rparr>) \<and>
   flush_insert sha256_hexdigest table (a\<lparr>timestamp := None\<rparr>) =
     Raised AttributeError table"
  by (simp add: flush_insert_def calculate_checksum_before_insert_def calculate_checksum_def)







end
